theory Spec2Isabelle
  imports Main
begin

section \<open>Data model of \<open>liblsp/Server.h\<close>\<close>

text \<open>
  The helper types of \<open>Server.h\<close> (lines 39--104) as records and datatypes. The headers
  \<open>liblsp/Transport.h\<close>, \<open>liblsp/Range.h\<close>, \<open>libsolutil/URI.h\<close> and \<open>json/value.h\<close> are
  included by \<open>Server.h\<close> but are not part of the sources at hand; the types they
  declare are given below from the specification's data model (section 3).
\<close>

text \<open>Modelled from the spec: \<open>solidity::util::URI\<close> (\<open>libsolutil/URI.h\<close>), a document URI.\<close>

type_synonym URI = string

text \<open>
  Modelled from the spec: \<open>Position\<close> and \<open>Range\<close> (\<open>liblsp/Range.h\<close>): a zero-based
  (line, character) pair, and a pair of positions.
\<close>

record Position =
  line :: nat
  character :: nat

record Range =
  range_start :: Position
  range_end :: Position

text \<open>
  Modelled from the spec: \<open>Json::Value\<close> (\<open>json/value.h\<close>), the generic structured value:
  a recursive tagged union of null, bool, number, string, array and object.
\<close>

datatype Json =
    JNull
  | JBool bool
  | JNumber int
  | JString string
  | JArray "Json list"
  | JObject "(string \<times> Json) list"

text \<open>
  Modelled from the spec: \<open>MessageId\<close> (\<open>liblsp/Transport.h\<close>), a tagged union of
  integer, string and absent; a notification carries no id.
\<close>

datatype MessageId = IdInt int | IdString string | IdAbsent

text \<open>\<open>enum class Trace\<close>, \<open>Server.h\<close> line 40.\<close>

datatype Trace = Off | Messages | Verbose

text \<open>The structs of \<open>Server.h\<close> lines 42--72.\<close>

record WorkspaceFolder =
  wf_name :: string
  wf_uri :: URI

record DocumentPosition =
  dp_uri :: URI
  dp_position :: Position

record ServerId =
  serverName :: string
  serverVersion :: string

datatype DocumentHighlightKind = Unspecified | Text | Read | Write

record Location =
  loc_uri :: URI
  loc_range :: Range

record DocumentHighlight =
  dh_range :: Range
  dh_kind :: DocumentHighlightKind

section \<open>The capability hooks of class \<open>Server\<close>\<close>

text \<open>
  The virtual member functions of \<open>Server\<close> (\<open>Server.h\<close> lines 139--201). A hook is a
  member function: it receives the object (its state, of type \<open>'s\<close>) and may change it,
  so a hook returning \<open>void\<close> is a state transformer and a hook returning a value
  returns the value with the state. The bodies below are the inline bodies of the
  header: \<open>{}\<close> for the seven \<open>void\<close> hooks and \<open>{ return {}; }\<close> for the three queries.
  The three overloads of \<open>documentContentUpdated\<close> carry a suffix.
\<close>

definition initialized :: "'s \<Rightarrow> 's" where
  "initialized s = s"

definition changeConfiguration :: "Json \<Rightarrow> 's \<Rightarrow> 's" where
  "changeConfiguration settings s = s"

definition documentOpened :: "URI \<Rightarrow> string \<Rightarrow> int \<Rightarrow> string \<Rightarrow> 's \<Rightarrow> 's" where
  "documentOpened uri languageId version contents s = s"

definition documentContentUpdated_full :: "URI \<Rightarrow> int option \<Rightarrow> string \<Rightarrow> 's \<Rightarrow> 's" where
  "documentContentUpdated_full uri version fullContentChange s = s"

definition documentContentUpdated_notice :: "URI \<Rightarrow> 's \<Rightarrow> 's" where
  "documentContentUpdated_notice uri s = s"

definition documentContentUpdated_range ::
  "URI \<Rightarrow> int option \<Rightarrow> Range \<Rightarrow> string \<Rightarrow> 's \<Rightarrow> 's" where
  "documentContentUpdated_range uri version rng text s = s"

definition documentClosed :: "URI \<Rightarrow> 's \<Rightarrow> 's" where
  "documentClosed uri s = s"

definition gotoDefinition :: "DocumentPosition \<Rightarrow> 's \<Rightarrow> Location list \<times> 's" where
  "gotoDefinition position s = ([], s)"

definition semanticHighlight :: "DocumentPosition \<Rightarrow> 's \<Rightarrow> DocumentHighlight list \<times> 's" where
  "semanticHighlight documentPosition s = ([], s)"

definition references :: "DocumentPosition \<Rightarrow> 's \<Rightarrow> Location list \<times> 's" where
  "references documentPosition s = ([], s)"

text \<open>
  A call of a hook with its arguments, and what a hook returns. The engine reaches the
  hooks only through virtual dispatch, so a call is data and the class's table of
  virtual functions is a function on calls.
\<close>

datatype HookCall =
    Initialize URI "WorkspaceFolder list"
  | Initialized
  | ChangeConfiguration Json
  | DocumentOpened URI string int string
  | DocumentContentUpdatedFull URI "int option" string
  | DocumentContentUpdatedNotice URI
  | DocumentContentUpdatedRange URI "int option" Range string
  | DocumentClosed URI
  | GotoDefinition DocumentPosition
  | SemanticHighlight DocumentPosition
  | References DocumentPosition

datatype HookValue =
    Void
  | ServerIdValue ServerId
  | Locations "Location list"
  | Highlights "DocumentHighlight list"

text \<open>
  The virtual function table of the base class \<open>Server\<close> itself: the body each hook has
  in \<open>Server.h\<close>. \<open>initialize\<close> is declared \<open>= 0\<close> (line 141): the base class has no
  body for it, which is \<open>None\<close>.
\<close>

fun Server_vtable :: "HookCall \<Rightarrow> 's \<Rightarrow> (HookValue \<times> 's) option" where
  "Server_vtable (Initialize rootUri workspaceFolders) s = None"
| "Server_vtable Initialized s = Some (Void, initialized s)"
| "Server_vtable (ChangeConfiguration settings) s = Some (Void, changeConfiguration settings s)"
| "Server_vtable (DocumentOpened uri languageId version contents) s =
     Some (Void, documentOpened uri languageId version contents s)"
| "Server_vtable (DocumentContentUpdatedFull uri version contents) s =
     Some (Void, documentContentUpdated_full uri version contents s)"
| "Server_vtable (DocumentContentUpdatedNotice uri) s =
     Some (Void, documentContentUpdated_notice uri s)"
| "Server_vtable (DocumentContentUpdatedRange uri version rng text) s =
     Some (Void, documentContentUpdated_range uri version rng text s)"
| "Server_vtable (DocumentClosed uri) s = Some (Void, documentClosed uri s)"
| "Server_vtable (GotoDefinition position) s =
     (case gotoDefinition position s of (locations, s') \<Rightarrow> Some (Locations locations, s'))"
| "Server_vtable (SemanticHighlight position) s =
     (case semanticHighlight position s of (highlights, s') \<Rightarrow> Some (Highlights highlights, s'))"
| "Server_vtable (References position) s =
     (case references position s of (locations, s') \<Rightarrow> Some (Locations locations, s'))"

section \<open>\<open>LanguageServer::findAllReferences\<close>, the two inline overloads\<close>

text \<open>
  \<open>LanguageServer.h\<close> lines 92--101 and 111--122. \<open>frontend::Declaration const*\<close> is a
  pointer that may be null: \<open>None\<close> is the null pointer, \<open>Some d\<close> points to
  the declaration \<open>d\<close>. Of \<open>frontend::Declaration\<close> and \<open>frontend::SourceUnit\<close>
  (\<open>libsolidity/ast/AST.h\<close>, not among the sources) the two functions use only
  \<open>Declaration::name()\<close>; a source unit is passed through untouched.

  \<open>_declaration->name()\<close> dereferences the pointer. On a null pointer that is undefined
  behaviour, which the model makes a value: \<open>name\<close> returns \<open>Inl NullDereference\<close>.

  The two overloads that do the work (lines 86--90 and 103--109) are declared only;
  they are the parameters \<open>impl\<close>.
\<close>

record Declaration =
  decl_name :: string

datatype Fault = NullDereference

definition name :: "Declaration option \<Rightarrow> Fault + string" where
  "name decl = (case decl of None \<Rightarrow> Inl NullDereference | Some d \<Rightarrow> Inr (decl_name d))"

text \<open>The value-returning overload, lines 92--101.\<close>

definition findAllReferences ::
  "(Declaration option \<Rightarrow> string \<Rightarrow> 'u \<Rightarrow> DocumentHighlight list) \<Rightarrow>
   Declaration option \<Rightarrow> 'u \<Rightarrow> Fault + DocumentHighlight list" where
  "findAllReferences impl decl sourceUnit =
     (if decl \<noteq> None then
        (case name decl of
           Inl fault \<Rightarrow> Inl fault
         | Inr n \<Rightarrow> Inr (impl decl n sourceUnit))
      else Inr [])"

text \<open>
  The overload with an output parameter, lines 111--122. \<open>_output\<close> is a reference to
  the caller's vector: the function takes the vector and returns it as it leaves it.
\<close>

definition findAllReferences_output ::
  "(Declaration option \<Rightarrow> string \<Rightarrow> 'u \<Rightarrow> URI \<Rightarrow> Location list \<Rightarrow> Location list) \<Rightarrow>
   Declaration option \<Rightarrow> 'u \<Rightarrow> URI \<Rightarrow> Location list \<Rightarrow> Fault + Location list" where
  "findAllReferences_output impl decl sourceUnit sourceUnitUri output =
     (if decl = None then Inr output
      else
        (case name decl of
           Inl fault \<Rightarrow> Inl fault
         | Inr n \<Rightarrow> Inr (impl decl n sourceUnit sourceUnitUri output)))"

section \<open>The state of a \<open>Server\<close>\<close>

text \<open>
  The data members of class \<open>Server\<close>, \<open>Server.h\<close> lines 244--249. \<open>m_client\<close> is the
  transport: what is read from it is the input of \<open>run\<close> and what is sent to it is
  returned as a list of outbound messages. \<open>m_logger\<close> is a logging callback and is left
  out. The four members are \<open>private\<close>: an overriding hook of a derived class cannot
  assign them, so the members a derived class adds are a part of their own, \<open>derived\<close>,
  and an engine's hooks work on that part only.

  Modelled from the spec: \<open>initializeHandled\<close> is not a member the header declares.
  The specification's state machine (section 4.1) has the states Uninitialized,
  Initialized, ShutdownRequested and Exited; the last two are the flags
  \<open>m_shutdownRequested\<close> and \<open>m_exitRequested\<close>, and nothing the class declares tells
  Uninitialized from Initialized. The field records that an \<open>initialize\<close> request has
  been answered successfully. The state between that answer and the notification
  \<open>initialized\<close>, which the specification calls pending, differs from Initialized in
  nothing the specification states (no message is refused there), and is not kept
  apart.

  A handler is a closure bound to \<open>this\<close> (\<open>Handler\<close>, line 241); the table holds which
  member function it is: the nine \<open>handle_...\<close> members of lines 230--238, and the
  handlers of \<open>initialized\<close> and \<open>shutdown\<close>, which the specification's method surface
  lists and for which the class declares no member.
\<close>

datatype Handler =
    InitializeRequest
  | InitializedNotification
  | ShutdownRequest
  | Exit
  | DidChangeConfiguration
  | DidOpen
  | DidChange
  | DidClose
  | Definition
  | Highlight
  | ReferencesRequest

type_synonym HandlerMap = "string \<rightharpoonup> Handler"

record 'e Server =
  m_handlers :: HandlerMap
  m_shutdownRequested :: bool
  m_exitRequested :: bool
  m_trace :: Trace
  initializeHandled :: bool
  derived :: 'e

text \<open>
  \<open>Server::Server\<close> (line 121) is declared only. The members with a default member
  initialiser (lines 246--248: \<open>m_shutdownRequested = false\<close>, \<open>m_exitRequested = false\<close>,
  \<open>m_trace = ::lsp::Trace::Off\<close>) start from it; the table of handlers is what the
  constructor builds and is a parameter, as are the members of the derived class. A
  server starts Uninitialized.
\<close>

definition Server_ctor :: "HandlerMap \<Rightarrow> 'e \<Rightarrow> 'e Server" where
  "Server_ctor handlers members =
     \<lparr>m_handlers = handlers, m_shutdownRequested = False, m_exitRequested = False,
      m_trace = Off, initializeHandled = False, derived = members\<rparr>"

text \<open>
  \<open>Trace trace() const noexcept { return m_trace; }\<close>, line 227. As every member
  function it is given the object and hands it back: the value returned, and the state
  of the object after the call.
\<close>

definition trace :: "'e Server \<Rightarrow> Trace \<times> 'e Server" where
  "trace s = (m_trace s, s)"

section \<open>The protocol engine\<close>

text \<open>
  \<open>Server::run\<close>, \<open>Server::handleMessage\<close>, \<open>Server::error\<close> and the handlers are
  declared in \<open>Server.h\<close>; their bodies are in \<open>Server.cpp\<close>, which is not among the
  sources. This section gives them from the specification (sections 4.1, 6 and 7)
  over the state of the previous section.
\<close>

text \<open>
  Modelled from the spec: \<open>enum class ErrorCode\<close>, declared at \<open>Server.h\<close> line 37
  without its values; the error codes of section 6.
\<close>

datatype ErrorCode =
    ParseError
  | InvalidRequest
  | MethodNotFound
  | InvalidParams
  | InternalError
  | ServerNotInitialized
  | InvalidRange
  | RequestFailed

text \<open>
  Modelled from the spec: a JSON-RPC message as the codec delivers it (id, method,
  params).
\<close>

record Message =
  msg_id :: MessageId
  msg_method :: string
  msg_params :: Json

text \<open>
  Modelled from the spec: what the server sends (section 6): the response to a
  request, an error response, or a notification (diagnostics, log).
\<close>

datatype Outbound =
    Reply MessageId HookValue
  | ErrorResponse MessageId ErrorCode string
  | Notify string Json

text \<open>
  Modelled from the spec: the parameters of a known method once they are read from
  the generic value. The shape of the JSON is not specified: reading it is the
  parameter \<open>decodeParams\<close> below, and \<open>None\<close> is the specification's "malformed
  parameters for a known method".
\<close>

datatype ContentChange = FullChange string | RangeChange Range string

datatype Params =
    NoParams
  | InitializeParams URI "WorkspaceFolder list"
  | ConfigurationParams "Trace option" Json
  | DidOpenParams URI string int string
  | DidChangeParams URI "int option" "ContentChange list"
  | DidCloseParams URI
  | PositionParams DocumentPosition

text \<open>
  Modelled from the spec: the concrete engine behind the virtual hooks. A hook either
  returns or raises an internal error; it may send notifications (\<open>pushDiagnostics\<close>,
  \<open>log\<close>) and change the members of its own class.
\<close>

datatype HookOutcome = Returned HookValue | Raised string

record 'e Engine =
  hooks :: "HookCall \<Rightarrow> 'e \<Rightarrow> HookOutcome \<times> Outbound list \<times> 'e"
  decodeParams :: "Handler \<Rightarrow> Json \<Rightarrow> Params option"

text \<open>
  Modelled from the spec: \<open>Server::error\<close> (declared at line 218), which sends an error
  response for the request \<open>id\<close>.
\<close>

definition error :: "MessageId \<Rightarrow> ErrorCode \<Rightarrow> string \<Rightarrow> Outbound list" where
  "error ident code message = [ErrorResponse ident code message]"

text \<open>
  Modelled from the spec: an error is answered to a request and dropped for a
  notification.
\<close>

definition reject :: "MessageId \<Rightarrow> ErrorCode \<Rightarrow> string \<Rightarrow> Outbound list" where
  "reject ident code message = (if ident = IdAbsent then [] else error ident code message)"

text \<open>Modelled from the spec: a result is sent to a request, which has an id.\<close>

definition reply :: "MessageId \<Rightarrow> HookValue \<Rightarrow> Outbound list" where
  "reply ident v = (if ident = IdAbsent then [] else [Reply ident v])"

text \<open>
  Modelled from the spec: a hook is called at the dispatch boundary. What it sent is
  sent, what it changed stays changed, and a hook that raises is converted to an
  \<open>InternalError\<close> response carrying its message.
\<close>

definition callHook ::
  "'e Engine \<Rightarrow> MessageId \<Rightarrow> HookCall \<Rightarrow> 'e Server \<Rightarrow> HookValue option \<times> 'e Server \<times> Outbound list" where
  "callHook eng ident call s =
     (case hooks eng call (derived s) of
        (Returned v, outs, e) \<Rightarrow> (Some v, s\<lparr>derived := e\<rparr>, outs)
      | (Raised message, outs, e) \<Rightarrow>
          (None, s\<lparr>derived := e\<rparr>, outs @ reject ident InternalError message))"

subsection \<open>The handlers\<close>

text \<open>
  Modelled from the spec: \<open>Server::handle_initializeRequest\<close> (declared at line 230).
  It reads the root URI and the workspace folders, calls the hook \<open>initialize\<close> and
  answers with the \<open>ServerId\<close> the hook returns; the server then leaves the state
  Uninitialized. Malformed parameters are answered with \<open>InvalidParams\<close>, and they and
  a hook that raises leave the state as it was.
\<close>

definition handle_initializeRequest ::
  "'e Engine \<Rightarrow> MessageId \<Rightarrow> Json \<Rightarrow> 'e Server \<Rightarrow> 'e Server \<times> Outbound list" where
  "handle_initializeRequest eng ident args s =
     (case decodeParams eng InitializeRequest args of
        Some (InitializeParams rootUri workspaceFolders) \<Rightarrow>
          (case callHook eng ident (Initialize rootUri workspaceFolders) s of
             (Some v, s', outs) \<Rightarrow> (s'\<lparr>initializeHandled := True\<rparr>, outs @ reply ident v)
           | (None, s', outs) \<Rightarrow> (s', outs))
      | _ \<Rightarrow> (s, reject ident InvalidParams ''invalid parameters''))"

text \<open>
  Modelled from the spec: the handler of the notification \<open>initialized\<close>, which calls
  the hook of that name.
\<close>

definition handle_initialized ::
  "'e Engine \<Rightarrow> MessageId \<Rightarrow> Json \<Rightarrow> 'e Server \<Rightarrow> 'e Server \<times> Outbound list" where
  "handle_initialized eng ident args s =
     (case callHook eng ident Initialized s of (_, s', outs) \<Rightarrow> (s', outs))"

text \<open>
  Modelled from the spec: the handler of \<open>shutdown\<close>, which requests the shutdown and
  still answers the request successfully. \<open>shutdown\<close> is a request: a message of that
  name without an id has nothing to be answered and is ignored.
\<close>

definition handle_shutdown ::
  "MessageId \<Rightarrow> Json \<Rightarrow> 'e Server \<Rightarrow> 'e Server \<times> Outbound list" where
  "handle_shutdown ident args s =
     (if ident = IdAbsent then (s, [])
      else (s\<lparr>m_shutdownRequested := True\<rparr>, reply ident Void))"

text \<open>
  Modelled from the spec: \<open>Server::handle_exit\<close> (declared at line 231), which requests
  the exit; the read loop ends on it.
\<close>

definition handle_exit ::
  "MessageId \<Rightarrow> Json \<Rightarrow> 'e Server \<Rightarrow> 'e Server \<times> Outbound list" where
  "handle_exit ident args s = (s\<lparr>m_exitRequested := True\<rparr>, [])"

text \<open>
  Modelled from the spec: \<open>Server::handle_workspace_didChangeConfiguration\<close> (declared
  at line 232). The trace level is settable only via configuration: the handler
  assigns \<open>m_trace\<close> when the configuration carries a level, and passes the settings to
  the hook \<open>changeConfiguration\<close>.
\<close>

definition handle_workspace_didChangeConfiguration ::
  "'e Engine \<Rightarrow> MessageId \<Rightarrow> Json \<Rightarrow> 'e Server \<Rightarrow> 'e Server \<times> Outbound list" where
  "handle_workspace_didChangeConfiguration eng ident args s =
     (case decodeParams eng DidChangeConfiguration args of
        Some (ConfigurationParams level settings) \<Rightarrow>
          (case callHook eng ident (ChangeConfiguration settings)
                  (s\<lparr>m_trace := (case level of None \<Rightarrow> m_trace s | Some t \<Rightarrow> t)\<rparr>) of
             (_, s', outs) \<Rightarrow> (s', outs))
      | _ \<Rightarrow> (s, reject ident InvalidParams ''invalid parameters''))"

text \<open>
  Modelled from the spec: \<open>Server::handle_textDocument_didOpen\<close> (declared at line
  233), which calls the hook \<open>documentOpened\<close>.
\<close>

definition handle_textDocument_didOpen ::
  "'e Engine \<Rightarrow> MessageId \<Rightarrow> Json \<Rightarrow> 'e Server \<Rightarrow> 'e Server \<times> Outbound list" where
  "handle_textDocument_didOpen eng ident args s =
     (case decodeParams eng DidOpen args of
        Some (DidOpenParams uri languageId version contents) \<Rightarrow>
          (case callHook eng ident (DocumentOpened uri languageId version contents) s of
             (_, s', outs) \<Rightarrow> (s', outs))
      | _ \<Rightarrow> (s, reject ident InvalidParams ''invalid parameters''))"

text \<open>
  Modelled from the spec: a change is a full replacement or a range patch, and each
  has its overload of \<open>documentContentUpdated\<close>.
\<close>

fun changeCall :: "URI \<Rightarrow> int option \<Rightarrow> ContentChange \<Rightarrow> HookCall" where
  "changeCall uri version (FullChange contents) = DocumentContentUpdatedFull uri version contents"
| "changeCall uri version (RangeChange rng text) = DocumentContentUpdatedRange uri version rng text"

text \<open>
  Modelled from the spec: the changes of one \<open>didChange\<close> are passed to the hooks in
  order, stopping at the first that raises.
\<close>

fun applyChanges ::
  "'e Engine \<Rightarrow> MessageId \<Rightarrow> URI \<Rightarrow> int option \<Rightarrow> ContentChange list \<Rightarrow> 'e Server \<Rightarrow>
   bool \<times> 'e Server \<times> Outbound list" where
  "applyChanges eng ident uri version [] s = (True, s, [])"
| "applyChanges eng ident uri version (c # cs) s =
     (case callHook eng ident (changeCall uri version c) s of
        (None, s', outs) \<Rightarrow> (False, s', outs)
      | (Some _, s', outs) \<Rightarrow>
          (case applyChanges eng ident uri version cs s' of
             (ok, s'', outs') \<Rightarrow> (ok, s'', outs @ outs')))"

text \<open>
  Modelled from the spec: \<open>Server::handle_textDocument_didChange\<close> (declared at line
  234). The overload of \<open>documentContentUpdated\<close> without payload (\<open>Server.h\<close> line 164:
  "updates have happened to the given document") is called once the changes have
  been applied.
\<close>

definition handle_textDocument_didChange ::
  "'e Engine \<Rightarrow> MessageId \<Rightarrow> Json \<Rightarrow> 'e Server \<Rightarrow> 'e Server \<times> Outbound list" where
  "handle_textDocument_didChange eng ident args s =
     (case decodeParams eng DidChange args of
        Some (DidChangeParams uri version changes) \<Rightarrow>
          (case applyChanges eng ident uri version changes s of
             (False, s', outs) \<Rightarrow> (s', outs)
           | (True, s', outs) \<Rightarrow>
               (case callHook eng ident (DocumentContentUpdatedNotice uri) s' of
                  (_, s'', outs') \<Rightarrow> (s'', outs @ outs')))
      | _ \<Rightarrow> (s, reject ident InvalidParams ''invalid parameters''))"

text \<open>
  Modelled from the spec: \<open>Server::handle_textDocument_didClose\<close> (declared at line
  235), which calls the hook \<open>documentClosed\<close>.
\<close>

definition handle_textDocument_didClose ::
  "'e Engine \<Rightarrow> MessageId \<Rightarrow> Json \<Rightarrow> 'e Server \<Rightarrow> 'e Server \<times> Outbound list" where
  "handle_textDocument_didClose eng ident args s =
     (case decodeParams eng DidClose args of
        Some (DidCloseParams uri) \<Rightarrow>
          (case callHook eng ident (DocumentClosed uri) s of (_, s', outs) \<Rightarrow> (s', outs))
      | _ \<Rightarrow> (s, reject ident InvalidParams ''invalid parameters''))"

text \<open>
  Modelled from the spec: what the three queries share. The handler reads a document
  position, calls its hook and answers the request with what the hook returns.
\<close>

definition query ::
  "'e Engine \<Rightarrow> Handler \<Rightarrow> (DocumentPosition \<Rightarrow> HookCall) \<Rightarrow> MessageId \<Rightarrow> Json \<Rightarrow> 'e Server \<Rightarrow>
   'e Server \<times> Outbound list" where
  "query eng h call ident args s =
     (case decodeParams eng h args of
        Some (PositionParams position) \<Rightarrow>
          (case callHook eng ident (call position) s of
             (Some v, s', outs) \<Rightarrow> (s', outs @ reply ident v)
           | (None, s', outs) \<Rightarrow> (s', outs))
      | _ \<Rightarrow> (s, reject ident InvalidParams ''invalid parameters''))"

text \<open>
  Modelled from the spec: \<open>Server::handle_textDocument_definition\<close>,
  \<open>Server::handle_textDocument_highlight\<close> and \<open>Server::handle_textDocument_references\<close>
  (declared at lines 236--238), the queries behind the hooks \<open>gotoDefinition\<close>,
  \<open>semanticHighlight\<close> and \<open>references\<close>.
\<close>

definition handle_textDocument_definition ::
  "'e Engine \<Rightarrow> MessageId \<Rightarrow> Json \<Rightarrow> 'e Server \<Rightarrow> 'e Server \<times> Outbound list" where
  "handle_textDocument_definition eng = query eng Definition GotoDefinition"

definition handle_textDocument_highlight ::
  "'e Engine \<Rightarrow> MessageId \<Rightarrow> Json \<Rightarrow> 'e Server \<Rightarrow> 'e Server \<times> Outbound list" where
  "handle_textDocument_highlight eng = query eng Highlight SemanticHighlight"

definition handle_textDocument_references ::
  "'e Engine \<Rightarrow> MessageId \<Rightarrow> Json \<Rightarrow> 'e Server \<Rightarrow> 'e Server \<times> Outbound list" where
  "handle_textDocument_references eng = query eng ReferencesRequest References"

text \<open>
  Modelled from the spec: calling the closure a table entry stands for, with the id
  and the params of the message.
\<close>

fun invoke ::
  "'e Engine \<Rightarrow> Handler \<Rightarrow> MessageId \<Rightarrow> Json \<Rightarrow> 'e Server \<Rightarrow> 'e Server \<times> Outbound list" where
  "invoke eng InitializeRequest = handle_initializeRequest eng"
| "invoke eng InitializedNotification = handle_initialized eng"
| "invoke eng ShutdownRequest = handle_shutdown"
| "invoke eng Exit = handle_exit"
| "invoke eng DidChangeConfiguration = handle_workspace_didChangeConfiguration eng"
| "invoke eng DidOpen = handle_textDocument_didOpen eng"
| "invoke eng DidChange = handle_textDocument_didChange eng"
| "invoke eng DidClose = handle_textDocument_didClose eng"
| "invoke eng Definition = handle_textDocument_definition eng"
| "invoke eng Highlight = handle_textDocument_highlight eng"
| "invoke eng ReferencesRequest = handle_textDocument_references eng"

subsection \<open>Handling one message\<close>

text \<open>
  Modelled from the spec: the routing step of \<open>Server::handleMessage\<close>, sequencing
  first (sections 4.1 and 7 (b)). After \<open>shutdown\<close> only \<open>exit\<close> is legal and anything
  else is refused with \<open>InvalidRequest\<close>. In the state Uninitialized the \<open>initialize\<close>
  request is the only request that is legal, \<open>exit\<close> is handled as in any state, and
  anything else is refused with \<open>ServerNotInitialized\<close>. ShutdownRequested is entered
  from Initialized only, so the two rules never meet. What is not refused has its
  method name looked up in the table, by equality of strings: an unknown method is
  refused with \<open>MethodNotFound\<close>, a known one goes to its handler. Whether a second
  \<open>initialize\<close> is legal the specification leaves open; it is not refused here.
\<close>

datatype Routing = Refused ErrorCode | Dispatched Handler

definition legalWhenUninitialized :: "Message \<Rightarrow> bool" where
  "legalWhenUninitialized msg =
     ((msg_method msg = ''initialize'' \<and> msg_id msg \<noteq> IdAbsent) \<or> msg_method msg = ''exit'')"

definition route :: "'e Server \<Rightarrow> Message \<Rightarrow> Routing" where
  "route s msg =
     (if m_shutdownRequested s \<and> msg_method msg \<noteq> ''exit'' then Refused InvalidRequest
      else if \<not> initializeHandled s \<and> \<not> legalWhenUninitialized msg
        then Refused ServerNotInitialized
      else
        (case m_handlers s (msg_method msg) of
           None \<Rightarrow> Refused MethodNotFound
         | Some h \<Rightarrow> Dispatched h))"

text \<open>
  Modelled from the spec: \<open>Server::handleMessage\<close> (declared at line 137). A refused
  request is answered with the error and a refused notification is dropped; the
  server is as it was. A message that is not refused is passed to its handler.
\<close>

definition handleMessage :: "'e Engine \<Rightarrow> Message \<Rightarrow> 'e Server \<Rightarrow> 'e Server \<times> Outbound list" where
  "handleMessage eng msg s =
     (case route s msg of
        Refused code \<Rightarrow> (s, reject (msg_id msg) code (msg_method msg))
      | Dispatched h \<Rightarrow> invoke eng h (msg_id msg) (msg_params msg) s)"

text \<open>
  Modelled from the spec: the table the constructor builds, one entry for each method
  of the inbound surface (section 6).
\<close>

definition standardHandlers :: HandlerMap where
  "standardHandlers =
     map_of
       [(''initialize'', InitializeRequest),
        (''initialized'', InitializedNotification),
        (''shutdown'', ShutdownRequest),
        (''exit'', Exit),
        (''workspace/didChangeConfiguration'', DidChangeConfiguration),
        (''textDocument/didOpen'', DidOpen),
        (''textDocument/didChange'', DidChange),
        (''textDocument/didClose'', DidClose),
        (''textDocument/definition'', Definition),
        (''textDocument/documentHighlight'', Highlight),
        (''textDocument/references'', ReferencesRequest)]"

subsection \<open>The read loop\<close>

text \<open>
  Modelled from the spec: what one read of the transport gives. The read fails when
  the transport fails or when the payload is not JSON or not a JSON-RPC envelope,
  with the id when one could be recovered; otherwise it gives a message.
\<close>

datatype Received =
    TransportError
  | MalformedJson MessageId
  | MalformedEnvelope MessageId
  | Envelope Message

fun isFailure :: "Received \<Rightarrow> bool" where
  "isFailure (Envelope msg) = False"
| "isFailure _ = True"

text \<open>
  Modelled from the spec: a failed read is answered with \<open>ParseError\<close> or
  \<open>InvalidRequest\<close> if an id was recovered, and dropped otherwise.
\<close>

fun readFailureResponse :: "Received \<Rightarrow> Outbound list" where
  "readFailureResponse TransportError = []"
| "readFailureResponse (MalformedJson ident) = reject ident ParseError ''parse error''"
| "readFailureResponse (MalformedEnvelope ident) = reject ident InvalidRequest ''invalid request''"
| "readFailureResponse (Envelope msg) = []"

text \<open>
  Modelled from the spec: the variables of the loop of \<open>Server::run\<close>: the server, the
  counter of consecutive failures, and what has been sent to the client so far.
\<close>

record 'e Loop =
  server :: "'e Server"
  failureCount :: nat
  sent :: "Outbound list"

text \<open>
  Modelled from the spec: the condition of the loop. It runs while \<open>exit\<close> has not been
  requested and the counter has not exceeded the threshold. The threshold is a
  constant of \<open>Server.cpp\<close> and is the parameter \<open>maxConsecutiveFailures\<close>.
\<close>

definition running :: "nat \<Rightarrow> 'e Loop \<Rightarrow> bool" where
  "running maxConsecutiveFailures l =
     (\<not> m_exitRequested (server l) \<and> failureCount l \<le> maxConsecutiveFailures)"

text \<open>
  Modelled from the spec: the body of the loop. A message that was read is handled
  and resets the counter to zero; a failed read adds one to the counter.
\<close>

fun iteration :: "'e Engine \<Rightarrow> Received \<Rightarrow> 'e Loop \<Rightarrow> 'e Loop" where
  "iteration eng (Envelope msg) l =
     (case handleMessage eng msg (server l) of
        (s, outs) \<Rightarrow> \<lparr>server = s, failureCount = 0, sent = sent l @ outs\<rparr>)"
| "iteration eng failure l =
     l\<lparr>failureCount := Suc (failureCount l), sent := sent l @ readFailureResponse failure\<rparr>"

text \<open>
  Modelled from the spec: what \<open>run\<close> returns, \<open>True\<close> for normal termination. It is
  abnormal when the threshold is exceeded; after \<open>exit\<close> it is normal if \<open>shutdown\<close>
  was requested before, and abnormal otherwise.
\<close>

definition verdict :: "nat \<Rightarrow> 'e Loop \<Rightarrow> bool" where
  "verdict maxConsecutiveFailures l =
     (if maxConsecutiveFailures < failureCount l then False
      else m_shutdownRequested (server l))"

text \<open>
  Modelled from the spec: the loop of \<open>Server::run\<close> on what the transport delivers.
  The transport blocks when nothing is left to read: on a finite input the result is
  \<open>None\<close> when the loop has not ended by the end of it, and \<open>Some\<close> of what \<open>run\<close>
  returns when it has.
\<close>

fun run_loop :: "nat \<Rightarrow> 'e Engine \<Rightarrow> 'e Loop \<Rightarrow> Received list \<Rightarrow> bool option \<times> 'e Loop" where
  "run_loop maxConsecutiveFailures eng l [] =
     (if running maxConsecutiveFailures l then (None, l)
      else (Some (verdict maxConsecutiveFailures l), l))"
| "run_loop maxConsecutiveFailures eng l (r # rs) =
     (if running maxConsecutiveFailures l
      then run_loop maxConsecutiveFailures eng (iteration eng r l) rs
      else (Some (verdict maxConsecutiveFailures l), l))"

text \<open>
  Modelled from the spec: \<open>Server::run\<close> (declared at line 131: "The standard shutdown
  condition is when the maximum number of consecutive failures has been exceeded";
  "@return boolean indicating normal or abnormal termination"). The counter starts at
  zero.
\<close>

definition run :: "nat \<Rightarrow> 'e Engine \<Rightarrow> 'e Server \<Rightarrow> Received list \<Rightarrow> bool option \<times> 'e Loop" where
  "run maxConsecutiveFailures eng s input =
     run_loop maxConsecutiveFailures eng \<lparr>server = s, failureCount = 0, sent = []\<rparr> input"


section \<open>The document store\<close>

text \<open>
  \<open>LanguageServer::m_vfs\<close> (\<open>LanguageServer.h\<close> lines 124--126) is the "in-memory
  filesystem for each opened file. Closed files will not be removed as they may be
  needed for compiling". Its class \<open>lsp::vfs::VFS\<close> (\<open>liblsp/VFS.h\<close>) and the overriding
  hooks of \<open>LanguageServer\<close> that use it are not among the sources; this section gives
  the store from section 4.2 of the specification.
\<close>

text \<open>
  Modelled from the spec: a document of the store: its language id, an optional
  version, its text, and the mark that it was closed. The store maps a URI to its
  document.
\<close>

record Document =
  doc_languageId :: string
  doc_version :: "int option"
  doc_content :: string
  doc_closed :: bool

type_synonym VFS = "URI \<rightharpoonup> Document"

text \<open>Modelled from the spec: the errors of an edit.\<close>

datatype StoreError = UnknownDocument | OutOfRange

text \<open>
  Modelled from the spec: \<open>open\<close>. Opening replaces content and version whether or not
  the document is there.
\<close>

definition vfs_open :: "URI \<Rightarrow> string \<Rightarrow> int \<Rightarrow> string \<Rightarrow> VFS \<Rightarrow> VFS" where
  "vfs_open uri languageId version contents vfs =
     vfs(uri \<mapsto> \<lparr>doc_languageId = languageId, doc_version = Some version,
                   doc_content = contents, doc_closed = False\<rparr>)"

text \<open>Modelled from the spec: the store keeps the latest version it is given.\<close>

definition latest :: "int option \<Rightarrow> Document \<Rightarrow> int option" where
  "latest version d = (case version of None \<Rightarrow> doc_version d | Some v \<Rightarrow> Some v)"

text \<open>
  Modelled from the spec: \<open>applyFull\<close>, which replaces the content, and fails with
  \<open>UnknownDocument\<close> for a URI that was never opened.
\<close>

definition applyFull :: "URI \<Rightarrow> int option \<Rightarrow> string \<Rightarrow> VFS \<Rightarrow> StoreError option \<times> VFS" where
  "applyFull uri version contents vfs =
     (case vfs uri of
        None \<Rightarrow> (Some UnknownDocument, vfs)
      | Some d \<Rightarrow> (None, vfs(uri \<mapsto> d\<lparr>doc_version := latest version d, doc_content := contents\<rparr>)))"

text \<open>
  Modelled from the spec: \<open>applyRange\<close>. How a range of (line, character) positions is
  checked against the text and replaced is not specified: it is the parameter
  \<open>replaceRange\<close>, which gives the new text, or \<open>None\<close> for a range the text does not
  have.
\<close>

definition applyRange ::
  "(string \<Rightarrow> Range \<Rightarrow> string \<Rightarrow> string option) \<Rightarrow>
   URI \<Rightarrow> int option \<Rightarrow> Range \<Rightarrow> string \<Rightarrow> VFS \<Rightarrow> StoreError option \<times> VFS" where
  "applyRange replaceRange uri version rng text vfs =
     (case vfs uri of
        None \<Rightarrow> (Some UnknownDocument, vfs)
      | Some d \<Rightarrow>
          (case replaceRange (doc_content d) rng text of
             None \<Rightarrow> (Some OutOfRange, vfs)
           | Some contents \<Rightarrow>
               (None, vfs(uri \<mapsto> d\<lparr>doc_version := latest version d, doc_content := contents\<rparr>))))"

text \<open>Modelled from the spec: \<open>close\<close>, which marks the document closed and keeps it.\<close>

definition vfs_close :: "URI \<Rightarrow> VFS \<Rightarrow> VFS" where
  "vfs_close uri vfs =
     (case vfs uri of None \<Rightarrow> vfs | Some d \<Rightarrow> vfs(uri \<mapsto> d\<lparr>doc_closed := True\<rparr>))"

text \<open>Modelled from the spec: \<open>get\<close>; \<open>None\<close> is \<open>NotFound\<close>.\<close>

definition vfs_get :: "URI \<Rightarrow> VFS \<Rightarrow> Document option" where
  "vfs_get uri vfs = vfs uri"

text \<open>
  Modelled from the spec: the hooks \<open>documentOpened\<close>, \<open>documentContentUpdated\<close> and
  \<open>documentClosed\<close> as \<open>LanguageServer\<close> overrides them (declared at
  \<open>LanguageServer.h\<close> lines 62--66), as far as the store goes. The store is changed
  only by the hooks of \<open>didOpen\<close>, \<open>didChange\<close> and \<open>didClose\<close> (section 2); this is what
  a call of a hook does to it, whether or not the edit was accepted.
\<close>

fun storeHook ::
  "(string \<Rightarrow> Range \<Rightarrow> string \<Rightarrow> string option) \<Rightarrow> HookCall \<Rightarrow> VFS \<Rightarrow> VFS" where
  "storeHook replaceRange (DocumentOpened uri languageId version contents) vfs =
     vfs_open uri languageId version contents vfs"
| "storeHook replaceRange (DocumentContentUpdatedFull uri version contents) vfs =
     snd (applyFull uri version contents vfs)"
| "storeHook replaceRange (DocumentContentUpdatedRange uri version rng text) vfs =
     snd (applyRange replaceRange uri version rng text vfs)"
| "storeHook replaceRange (DocumentClosed uri) vfs = vfs_close uri vfs"
| "storeHook replaceRange _ vfs = vfs"

section \<open>A minimal engine\<close>

text \<open>
  An engine that overrides \<open>initialize\<close>, which it must, and inherits every other hook
  from \<open>Server\<close>; a reader of parameters for the methods the examples use; and a server
  constructed with the table of the method surface, which starts Uninitialized.
\<close>

definition minimalHooks :: "ServerId \<Rightarrow> HookCall \<Rightarrow> 'e \<Rightarrow> HookOutcome \<times> Outbound list \<times> 'e" where
  "minimalHooks serverId call e =
     (case Server_vtable call e of
        Some (v, e') \<Rightarrow> (Returned v, [], e')
      | None \<Rightarrow> (Returned (ServerIdValue serverId), [], e))"

definition traceLevel :: "string \<Rightarrow> Trace option" where
  "traceLevel level =
     (if level = ''off'' then Some Off
      else if level = ''messages'' then Some Messages
      else if level = ''verbose'' then Some Verbose
      else None)"

fun exampleParams :: "Handler \<Rightarrow> Json \<Rightarrow> Params option" where
  "exampleParams InitializeRequest (JString rootUri) = Some (InitializeParams rootUri [])"
| "exampleParams DidChangeConfiguration (JString level) =
     Some (ConfigurationParams (traceLevel level) (JString level))"
| "exampleParams _ _ = None"

definition exampleEngine :: "unit Engine" where
  "exampleEngine =
     \<lparr>hooks = minimalHooks \<lparr>serverName = ''solc'', serverVersion = ''0.8''\<rparr>,
      decodeParams = exampleParams\<rparr>"

definition request :: "int \<Rightarrow> string \<Rightarrow> Json \<Rightarrow> Message" where
  "request n method params = \<lparr>msg_id = IdInt n, msg_method = method, msg_params = params\<rparr>"

definition notification :: "string \<Rightarrow> Json \<Rightarrow> Message" where
  "notification method params = \<lparr>msg_id = IdAbsent, msg_method = method, msg_params = params\<rparr>"

definition exampleServer :: "unit Server" where
  "exampleServer = Server_ctor standardHandlers ()"

text \<open>The same server once it has answered an \<open>initialize\<close> request.\<close>

definition readyServer :: "unit Server" where
  "readyServer =
     fst (handleMessage exampleEngine (request 1 ''initialize'' (JString ''file:///project''))
            exampleServer)"

section \<open>Theorems\<close>

subsection \<open>Defaults of the capability hooks\<close>

text \<open>
  C7, the claim as stated: every capability hook of the base \<open>Server\<close> has a safe
  default. It fails at \<open>initialize\<close>, which is pure virtual: the base class has no body
  for it, so an engine cannot leave it out.
\<close>

theorem initialize_has_no_default:
  "Server_vtable (Initialize ''file:///project'' []) () = None"
  by simp

text \<open>
  C7, amended: every capability hook of the base \<open>Server\<close> other than \<open>initialize\<close> has a
  safe default. For every input and every state of the object, the defaults of
  \<open>initialized\<close>, \<open>changeConfiguration\<close>, \<open>documentOpened\<close>, the three overloads of
  \<open>documentContentUpdated\<close> and \<open>documentClosed\<close> return with the state as it was, and the
  defaults of \<open>gotoDefinition\<close>, \<open>semanticHighlight\<close> and \<open>references\<close> return the empty
  list with the state as it was.
\<close>

theorem hook_defaults_are_safe:
  "Server_vtable Initialized s = Some (Void, s)
   \<and> Server_vtable (ChangeConfiguration settings) s = Some (Void, s)
   \<and> Server_vtable (DocumentOpened uri languageId version contents) s = Some (Void, s)
   \<and> Server_vtable (DocumentContentUpdatedFull uri optVersion contents) s = Some (Void, s)
   \<and> Server_vtable (DocumentContentUpdatedNotice uri) s = Some (Void, s)
   \<and> Server_vtable (DocumentContentUpdatedRange uri optVersion rng text) s = Some (Void, s)
   \<and> Server_vtable (DocumentClosed uri) s = Some (Void, s)
   \<and> Server_vtable (GotoDefinition position) s = Some (Locations [], s)
   \<and> Server_vtable (SemanticHighlight position) s = Some (Highlights [], s)
   \<and> Server_vtable (References position) s = Some (Locations [], s)"
  by (simp add: initialized_def changeConfiguration_def documentOpened_def
      documentContentUpdated_full_def documentContentUpdated_notice_def
      documentContentUpdated_range_def documentClosed_def gotoDefinition_def
      semanticHighlight_def references_def)

subsection \<open>Null declarations in \<open>findAllReferences\<close>\<close>

text \<open>
  C9: for every source unit, \<open>findAllReferences\<close> with a null pointer returns the
  empty list in the value-returning overload, and in the overload with an output
  parameter returns with the output vector as it was; neither reads the name of a
  declaration then. The name is read only behind the null check: a pointer that is
  not null has its name read and passed on, and whatever the pointer is, no call ends
  in a null dereference.
\<close>

theorem findAllReferences_null_safe:
  "findAllReferences impl None sourceUnit = Inr []
   \<and> findAllReferences_output impl' None sourceUnit sourceUnitUri output = Inr output
   \<and> findAllReferences impl (Some d) sourceUnit = Inr (impl (Some d) (decl_name d) sourceUnit)
   \<and> findAllReferences_output impl' (Some d) sourceUnit sourceUnitUri output =
        Inr (impl' (Some d) (decl_name d) sourceUnit sourceUnitUri output)
   \<and> findAllReferences impl decl sourceUnit \<noteq> Inl NullDereference
   \<and> findAllReferences_output impl' decl sourceUnit sourceUnitUri output
        \<noteq> Inl NullDereference"
  by (cases decl) (simp_all add: findAllReferences_def findAllReferences_output_def name_def)

subsection \<open>What a handler may change\<close>

text \<open>
  A hook works on the members of the derived class only, so calling one leaves the
  table, the flags and the state of initialisation of the server as they were.
\<close>

lemma callHook_base:
  "m_handlers (fst (snd (callHook eng ident call s))) = m_handlers s"
  "m_shutdownRequested (fst (snd (callHook eng ident call s))) = m_shutdownRequested s"
  "m_exitRequested (fst (snd (callHook eng ident call s))) = m_exitRequested s"
  "m_trace (fst (snd (callHook eng ident call s))) = m_trace s"
  "initializeHandled (fst (snd (callHook eng ident call s))) = initializeHandled s"
  by (simp_all add: callHook_def split: prod.split HookOutcome.split)

lemma applyChanges_base:
  "m_handlers (fst (snd (applyChanges eng ident uri version cs s))) = m_handlers s"
  "m_shutdownRequested (fst (snd (applyChanges eng ident uri version cs s))) = m_shutdownRequested s"
  "m_exitRequested (fst (snd (applyChanges eng ident uri version cs s))) = m_exitRequested s"
  "m_trace (fst (snd (applyChanges eng ident uri version cs s))) = m_trace s"
  "initializeHandled (fst (snd (applyChanges eng ident uri version cs s))) = initializeHandled s"
  by (induction cs arbitrary: s;
      simp add: case_prod_beta callHook_base split: option.split)+

lemmas handler_defs =
  handle_initializeRequest_def handle_initialized_def handle_shutdown_def handle_exit_def
  handle_workspace_didChangeConfiguration_def handle_textDocument_didOpen_def
  handle_textDocument_didChange_def handle_textDocument_didClose_def
  handle_textDocument_definition_def handle_textDocument_highlight_def
  handle_textDocument_references_def query_def




lemma invoke_trace:
  "h \<noteq> DidChangeConfiguration \<Longrightarrow> m_trace (fst (invoke eng h ident args s)) = m_trace s"
  by (cases h)
     (simp_all add: handler_defs case_prod_beta callHook_base applyChanges_base
        split: option.split Params.split bool.split)





lemma handleMessage_trace:
  "route s msg \<noteq> Dispatched DidChangeConfiguration \<Longrightarrow>
   m_trace (fst (handleMessage eng msg s)) = m_trace s"
  by (auto simp: handleMessage_def invoke_trace split: Routing.split)


subsection \<open>One iteration of the read loop\<close>

lemma run_loop_stopped:
  "\<not> running maxF l \<Longrightarrow> run_loop maxF eng l rs = (Some (verdict maxF l), l)"
  by (cases rs) simp_all

lemma iteration_Envelope_fields:
  "server (iteration eng (Envelope msg) l) = fst (handleMessage eng msg (server l))"
  "failureCount (iteration eng (Envelope msg) l) = 0"
  "sent (iteration eng (Envelope msg) l) = sent l @ snd (handleMessage eng msg (server l))"
  by (simp_all add: case_prod_beta)

lemma iteration_failure_fields:
  "isFailure r \<Longrightarrow> server (iteration eng r l) = server l"
  "isFailure r \<Longrightarrow> failureCount (iteration eng r l) = Suc (failureCount l)"
  "isFailure r \<Longrightarrow> sent (iteration eng r l) = sent l @ readFailureResponse r"
  by (cases r; simp)+

lemma run_loop_returned:
  "run_loop maxF eng l rs = (Some b, l') \<Longrightarrow> \<not> running maxF l' \<and> b = verdict maxF l'"
proof (induction rs arbitrary: l)
  case Nil
  then show ?case by (auto split: if_splits)
next
  case (Cons r rs)
  show ?case
  proof (cases "running maxF l")
    case True
    with Cons.prems have "run_loop maxF eng (iteration eng r l) rs = (Some b, l')" by simp
    then show ?thesis by (rule Cons.IH)
  next
    case False
    with Cons.prems show ?thesis by auto
  qed
qed


subsection \<open>After \<open>shutdown\<close>, and \<open>exit\<close>\<close>














text \<open>The definitions an example unfolds.\<close>

lemmas example_defs =
  exampleServer_def readyServer_def Server_ctor_def standardHandlers_def exampleEngine_def
  request_def notification_def minimalHooks_def traceLevel_def run_def running_def
  verdict_def handleMessage_def route_def legalWhenUninitialized_def handler_defs
  callHook_def reply_def reject_def error_def initialized_def changeConfiguration_def

lemma readyServer_initialized: "readyServer = exampleServer\<lparr>initializeHandled := True\<rparr>"
  by (simp add: example_defs)


subsection \<open>The counter of consecutive failures\<close>

lemma failures_exceed:
  "\<not> m_exitRequested (server l) \<Longrightarrow> \<forall>r\<in>set fs. isFailure r \<Longrightarrow>
   maxF < failureCount l + length fs \<Longrightarrow>
   fst (run_loop maxF eng l (fs @ rest)) = Some False"
proof (induction fs arbitrary: l)
  case Nil
  then have "\<not> running maxF l" by (simp add: running_def)
  then show ?case using Nil by (simp add: run_loop_stopped verdict_def)
next
  case (Cons f fs)
  show ?case
  proof (cases "running maxF l")
    case True
    let ?l = "iteration eng f l"
    have f: "isFailure f" using Cons.prems(2) by simp
    have "\<not> m_exitRequested (server ?l)"
      using Cons.prems(1) f by (simp add: iteration_failure_fields del: iteration.simps)
    moreover have "maxF < failureCount ?l + length fs"
      using Cons.prems(3) f by (simp add: iteration_failure_fields del: iteration.simps)
    ultimately have "fst (run_loop maxF eng ?l (fs @ rest)) = Some False"
      using Cons.IH Cons.prems(2) by simp
    then show ?thesis using True by simp
  next
    case False
    then have "maxF < failureCount l" using Cons.prems(1) by (simp add: running_def)
    then show ?thesis using False by (simp add: run_loop_stopped verdict_def)
  qed
qed

lemma counter_counts_consecutive_failures:
  "run_loop maxF eng l rs = (None, l') \<Longrightarrow>
   failureCount l' =
     (if \<forall>r\<in>set rs. isFailure r then failureCount l + length rs
      else length (takeWhile isFailure (rev rs)))"
proof (induction rs arbitrary: l)
  case Nil
  then show ?case by (auto split: if_splits)
next
  case (Cons r rs)
  have run: "running maxF l" using Cons.prems by (auto split: if_splits)
  let ?l = "iteration eng r l"
  have step: "run_loop maxF eng ?l rs = (None, l')" using Cons.prems run by simp
  have ih: "failureCount l' =
     (if \<forall>r\<in>set rs. isFailure r then failureCount ?l + length rs
      else length (takeWhile isFailure (rev rs)))"
    using Cons.IH[OF step] .
  show ?case
  proof (cases "\<forall>r\<in>set rs. isFailure r")
    case all: True
    show ?thesis
    proof (cases "isFailure r")
      case True
      then show ?thesis using ih all by (simp add: iteration_failure_fields del: iteration.simps)
    next
      case False
      then obtain msg where r: "r = Envelope msg" by (cases r) auto
      have "takeWhile isFailure (rev rs @ [r]) = rev rs @ takeWhile isFailure [r]"
        using all by (intro takeWhile_append2) simp
      then have "takeWhile isFailure (rev rs @ [r]) = rev rs"
        using r by simp
      then show ?thesis using ih all False r
        by (simp add: iteration_Envelope_fields del: iteration.simps)
    qed
  next
    case False
    then have "takeWhile isFailure (rev rs @ [r]) = takeWhile isFailure (rev rs)"
      by (metis set_rev takeWhile_append1)
    then show ?thesis using ih False by auto
  qed
qed

text \<open>
  C3, the claim as stated: the loop terminates with \<open>run\<close> returning the abnormal
  termination exactly when the counter exceeds the threshold. It fails: an \<open>exit\<close>
  that no \<open>shutdown\<close> preceded ends the loop with the abnormal result as well, here
  with no failed read at all (the counter is 0, the threshold 2).
\<close>

theorem abnormal_return_without_failures:
  "run 2 exampleEngine exampleServer [Envelope (notification ''exit'' JNull)] =
     (Some False,
      \<lparr>server = exampleServer\<lparr>m_exitRequested := True\<rparr>, failureCount = 0, sent = []\<rparr>)"
  by (simp add: example_defs)

text \<open>
  C3, amended: in the read loop each failed read (the transport failed, or the
  payload was malformed) adds one to the counter of consecutive failures and each
  message that was read and handled resets it to zero, so that while \<open>run\<close> has not
  returned the counter is the number of failed reads since the last message. As long
  as \<open>exit\<close> has not been requested the loop stops exactly when the counter exceeds
  the threshold: a \<open>run\<close> that returns without \<open>exit\<close> has a counter over the threshold
  and reports abnormal termination, and failed reads that take the counter over the
  threshold make \<open>run\<close> return, reporting abnormal termination.
\<close>

theorem consecutive_failures:
  "(isFailure r \<longrightarrow>
      failureCount (iteration eng r l) = Suc (failureCount l)
      \<and> server (iteration eng r l) = server l)
   \<and> failureCount (iteration eng (Envelope msg) l) = 0
   \<and> (run_loop maxF eng l1 rs1 = (None, l1') \<longrightarrow>
      failureCount l1' =
        (if \<forall>r\<in>set rs1. isFailure r then failureCount l1 + length rs1
         else length (takeWhile isFailure (rev rs1))))
   \<and> (\<not> m_exitRequested (server l2) \<longrightarrow>
      (running maxF l2 \<longleftrightarrow> failureCount l2 \<le> maxF))
   \<and> (run_loop maxF eng l3 rs3 = (Some b, l3') \<and> \<not> m_exitRequested (server l3') \<longrightarrow>
      maxF < failureCount l3' \<and> b = False)
   \<and> (\<not> m_exitRequested (server l4) \<and> (\<forall>f\<in>set fs. isFailure f)
        \<and> maxF < failureCount l4 + length fs \<longrightarrow>
      fst (run_loop maxF eng l4 (fs @ rest)) = Some False)"
proof (intro conjI impI)
  assume "isFailure r"
  then show "failureCount (iteration eng r l) = Suc (failureCount l)"
    and "server (iteration eng r l) = server l"
    by (simp_all add: iteration_failure_fields del: iteration.simps)
next
  show "failureCount (iteration eng (Envelope msg) l) = 0"
    by (simp add: iteration_Envelope_fields del: iteration.simps)
next
  assume "run_loop maxF eng l1 rs1 = (None, l1')"
  then show "failureCount l1' =
        (if \<forall>r\<in>set rs1. isFailure r then failureCount l1 + length rs1
         else length (takeWhile isFailure (rev rs1)))"
    by (rule counter_counts_consecutive_failures)
next
  assume "\<not> m_exitRequested (server l2)"
  then show "running maxF l2 \<longleftrightarrow> failureCount l2 \<le> maxF"
    by (simp add: running_def)
next
  assume h: "run_loop maxF eng l3 rs3 = (Some b, l3') \<and> \<not> m_exitRequested (server l3')"
  then have "\<not> running maxF l3' \<and> b = verdict maxF l3'"
    using run_loop_returned by blast
  then show "maxF < failureCount l3'" and "b = False"
    using h by (auto simp: running_def verdict_def)
next
  assume "\<not> m_exitRequested (server l4) \<and> (\<forall>f\<in>set fs. isFailure f)
        \<and> maxF < failureCount l4 + length fs"
  then show "fst (run_loop maxF eng l4 (fs @ rest)) = Some False"
    using failures_exceed[of l4 fs maxF eng rest] by blast
qed

text \<open>
  With the minimal engine, the server that has answered \<open>initialize\<close> and a
  threshold of two: a message between failed reads
  resets the counter, two failures in a row leave the loop running, and the third
  makes \<open>run\<close> return the abnormal termination.
\<close>

theorem consecutive_failures_witness:
  "isFailure (MalformedJson (IdInt 4))
   \<and> failureCount (iteration exampleEngine (MalformedJson (IdInt 4))
        \<lparr>server = readyServer, failureCount = 1, sent = []\<rparr>) = 2
   \<and> failureCount (iteration exampleEngine (Envelope (request 1 ''foo/bar'' JNull))
        \<lparr>server = readyServer, failureCount = 1, sent = []\<rparr>) = 0
   \<and> run_loop 2 exampleEngine \<lparr>server = readyServer, failureCount = 0, sent = []\<rparr>
        [TransportError, TransportError, Envelope (request 1 ''foo/bar'' JNull),
         MalformedJson (IdInt 4), MalformedEnvelope IdAbsent] =
      (None, \<lparr>server = readyServer, failureCount = 2,
              sent = [ErrorResponse (IdInt 1) MethodNotFound ''foo/bar'',
                      ErrorResponse (IdInt 4) ParseError ''parse error'']\<rparr>)
   \<and> length (takeWhile isFailure (rev
        [TransportError, TransportError, Envelope (request 1 ''foo/bar'' JNull),
         MalformedJson (IdInt 4), MalformedEnvelope IdAbsent])) = 2
   \<and> \<not> m_exitRequested readyServer
   \<and> running 2 \<lparr>server = readyServer, failureCount = 2, sent = []\<rparr>
   \<and> \<not> running 2 \<lparr>server = readyServer, failureCount = 3, sent = []\<rparr>
   \<and> run_loop 2 exampleEngine \<lparr>server = readyServer, failureCount = 0, sent = []\<rparr>
        [TransportError, TransportError, TransportError, Envelope (request 1 ''foo/bar'' JNull)] =
      (Some False, \<lparr>server = readyServer, failureCount = 3, sent = []\<rparr>)
   \<and> fst (run_loop 2 exampleEngine \<lparr>server = readyServer, failureCount = 1, sent = []\<rparr>
        ([TransportError, MalformedEnvelope IdAbsent] @ [Envelope (notification ''exit'' JNull)])) =
      Some False"
  using consecutive_failures
    [where r = "MalformedJson (IdInt 4)" and eng = exampleEngine
       and l = "\<lparr>server = readyServer, failureCount = 1, sent = []\<rparr>"
       and msg = "request 1 ''foo/bar'' JNull" and maxF = 2
       and ?l1.0 = "\<lparr>server = readyServer, failureCount = 0, sent = []\<rparr>"
       and ?rs1.0 = "[TransportError, TransportError, Envelope (request 1 ''foo/bar'' JNull),
                      MalformedJson (IdInt 4), MalformedEnvelope IdAbsent]"
       and ?l1' = "\<lparr>server = readyServer, failureCount = 2,
              sent = [ErrorResponse (IdInt 1) MethodNotFound ''foo/bar'',
                      ErrorResponse (IdInt 4) ParseError ''parse error'']\<rparr>"
       and ?l2.0 = "\<lparr>server = readyServer, failureCount = 3, sent = []\<rparr>"
       and ?l3.0 = "\<lparr>server = readyServer, failureCount = 0, sent = []\<rparr>"
       and ?rs3.0 = "[TransportError, TransportError, TransportError,
                      Envelope (request 1 ''foo/bar'' JNull)]"
       and b = False
       and ?l3' = "\<lparr>server = readyServer, failureCount = 3, sent = []\<rparr>"
       and ?l4.0 = "\<lparr>server = readyServer, failureCount = 1, sent = []\<rparr>"
       and fs = "[TransportError, MalformedEnvelope IdAbsent]"
       and rest = "[Envelope (notification ''exit'' JNull)]"]
  by (simp add: example_defs)

subsection \<open>Closed documents stay in the store\<close>

lemma storeHook_keeps:
  "vfs_get uri vfs \<noteq> None \<Longrightarrow> vfs_get uri (storeHook replaceRange call vfs) \<noteq> None"
  by (cases call)
     (auto simp: vfs_get_def vfs_open_def applyFull_def applyRange_def vfs_close_def
           split: option.splits)

lemma storeHooks_keep:
  "vfs_get uri vfs \<noteq> None \<Longrightarrow>
   vfs_get uri (foldl (\<lambda>v call. storeHook replaceRange call v) vfs calls) \<noteq> None"
proof (induction calls arbitrary: vfs)
  case Nil
  then show ?case by simp
next
  case (Cons call calls)
  have "vfs_get uri (storeHook replaceRange call vfs) \<noteq> None"
    using Cons.prems by (rule storeHook_keeps)
  then show ?case using Cons.IH by simp
qed

text \<open>
  C6: a document once opened is never removed from the document store by any
  subsequent operation. Opening a document puts it into the store; whatever hooks
  are called afterwards (opening, full and range edits whether accepted or refused,
  closing, of this or any other document), \<open>get\<close> on its URI still finds a document;
  and closing it keeps its language id, version and content and only marks it closed.
\<close>

theorem closed_documents_are_retained:
  "vfs_get uri (vfs_open uri languageId version contents vfs) =
     Some \<lparr>doc_languageId = languageId, doc_version = Some version,
           doc_content = contents, doc_closed = False\<rparr>
   \<and> vfs_get uri
        (foldl (\<lambda>v call. storeHook replaceRange call v)
           (vfs_open uri languageId version contents vfs) calls) \<noteq> None
   \<and> (vfs_get uri vfs1 = Some d \<longrightarrow>
      vfs_get uri (storeHook replaceRange (DocumentClosed uri) vfs1) =
        Some (d\<lparr>doc_closed := True\<rparr>)
      \<and> vfs_get uri
          (foldl (\<lambda>v call. storeHook replaceRange call v)
             (storeHook replaceRange (DocumentClosed uri) vfs1) calls1) \<noteq> None)"
proof (intro conjI impI)
  show found: "vfs_get uri (vfs_open uri languageId version contents vfs) =
     Some \<lparr>doc_languageId = languageId, doc_version = Some version,
           doc_content = contents, doc_closed = False\<rparr>"
    by (simp add: vfs_get_def vfs_open_def)
  then show "vfs_get uri
        (foldl (\<lambda>v call. storeHook replaceRange call v)
           (vfs_open uri languageId version contents vfs) calls) \<noteq> None"
    by (intro storeHooks_keep) simp
next
  assume "vfs_get uri vfs1 = Some d"
  then show closed: "vfs_get uri (storeHook replaceRange (DocumentClosed uri) vfs1) =
        Some (d\<lparr>doc_closed := True\<rparr>)"
    by (simp add: vfs_get_def vfs_close_def)
  then show "vfs_get uri
          (foldl (\<lambda>v call. storeHook replaceRange call v)
             (storeHook replaceRange (DocumentClosed uri) vfs1) calls1) \<noteq> None"
    by (intro storeHooks_keep) simp
qed

text \<open>
  The document \<open>file:///a.sol\<close> with content \<open>a\<close> is opened and closed, another document
  is opened and closed, and \<open>file:///a.sol\<close> is closed once more: it is still found.
\<close>

theorem closed_documents_are_retained_witness:
  "vfs_get ''file:///a.sol'' (vfs_open ''file:///a.sol'' ''solidity'' 1 ''a'' Map.empty) =
     Some \<lparr>doc_languageId = ''solidity'', doc_version = Some 1, doc_content = ''a'',
           doc_closed = False\<rparr>
   \<and> vfs_get ''file:///a.sol''
        (storeHook (\<lambda>contents rng text. None) (DocumentClosed ''file:///a.sol'')
           (vfs_open ''file:///a.sol'' ''solidity'' 1 ''a'' Map.empty)) =
      Some \<lparr>doc_languageId = ''solidity'', doc_version = Some 1, doc_content = ''a'',
            doc_closed = True\<rparr>
   \<and> vfs_get ''file:///a.sol''
        (foldl (\<lambda>v call. storeHook (\<lambda>contents rng text. None) call v)
           (storeHook (\<lambda>contents rng text. None) (DocumentClosed ''file:///a.sol'')
              (vfs_open ''file:///a.sol'' ''solidity'' 1 ''a'' Map.empty))
           [DocumentOpened ''file:///b.sol'' ''solidity'' 1 ''b'',
            DocumentClosed ''file:///b.sol'', DocumentClosed ''file:///a.sol'']) \<noteq> None"
  using closed_documents_are_retained
    [where uri = "''file:///a.sol''" and languageId = "''solidity''" and version = 1
       and contents = "''a''" and vfs = Map.empty
       and replaceRange = "\<lambda>contents rng text. None" and calls = "[]"
       and ?vfs1.0 = "vfs_open ''file:///a.sol'' ''solidity'' 1 ''a'' Map.empty"
       and d = "\<lparr>doc_languageId = ''solidity'', doc_version = Some 1, doc_content = ''a'',
                 doc_closed = False\<rparr>"
       and ?calls1.0 = "[DocumentOpened ''file:///b.sol'' ''solidity'' 1 ''b'',
            DocumentClosed ''file:///b.sol'', DocumentClosed ''file:///a.sol'']"]
  by (simp add: vfs_get_def vfs_open_def vfs_close_def)

subsection \<open>The trace level\<close>

lemma defaults_keep_state:
  "Server_vtable call s = None \<or> (\<exists>v. Server_vtable call s = Some (v, s))"
  by (cases call)
     (simp_all add: initialized_def changeConfiguration_def documentOpened_def
        documentContentUpdated_full_def documentContentUpdated_notice_def
        documentContentUpdated_range_def documentClosed_def gotoDefinition_def
        semanticHighlight_def references_def)

text \<open>
  C10: a freshly constructed \<open>Server\<close> has trace level \<open>Off\<close>, and the accessor \<open>trace()\<close>
  returns the stored trace level and leaves the server as it was. The trace level
  changes only when configuration handling assigns it: no member function whose body
  is in the header changes it (the accessor and the defaults of the hooks), and
  handling a message changes it only when the message is passed to the handler of
  \<open>workspace/didChangeConfiguration\<close>.
\<close>

theorem trace_level:
  "m_trace (Server_ctor handlers members) = Off
   \<and> trace s = (m_trace s, s)
   \<and> (case Server_vtable call s2 of None \<Rightarrow> True | Some (v, s') \<Rightarrow> m_trace s' = m_trace s2)
   \<and> (m_trace (fst (handleMessage eng msg s1)) \<noteq> m_trace s1 \<longrightarrow>
      route s1 msg = Dispatched DidChangeConfiguration)"
  using handleMessage_trace[of s1 msg eng] defaults_keep_state[of call s2]
  by (auto simp: Server_ctor_def trace_def)

text \<open>
  With the minimal engine: a fresh server has the level \<open>Off\<close>, and on the server
  that has answered \<open>initialize\<close> a configuration that carries the level \<open>verbose\<close>
  sets it.
\<close>

theorem trace_level_witness:
  "m_trace exampleServer = Off
   \<and> trace exampleServer = (Off, exampleServer)
   \<and> Server_vtable (DocumentClosed ''file:///a.sol'') exampleServer = Some (Void, exampleServer)
   \<and> m_trace (fst (handleMessage exampleEngine
        (notification ''workspace/didChangeConfiguration'' (JString ''verbose'')) readyServer))
      = Verbose
   \<and> Verbose \<noteq> m_trace readyServer
   \<and> route readyServer
        (notification ''workspace/didChangeConfiguration'' (JString ''verbose'')) =
      Dispatched DidChangeConfiguration"
  using trace_level
    [where handlers = standardHandlers and members = "()" and s = exampleServer
       and eng = exampleEngine and ?s1.0 = readyServer
       and call = "DocumentClosed ''file:///a.sol''" and ?s2.0 = exampleServer
       and msg = "notification ''workspace/didChangeConfiguration'' (JString ''verbose'')"]
  by (simp add: example_defs documentClosed_def)

end
